theory Spec2Isabelle
  imports Main
begin

section \<open>Go values, JSON documents and errors\<close>

text \<open>
  The handlers of package \<open>handlers\<close> read a request, call one collaborator and write
  one response through \<open>respond\<close>. They use three library packages: \<open>encoding/json\<close>,
  \<open>regexp\<close> and \<open>net/http\<close>. The library is modelled at the level of the JSON document:
  the bytes of a body stand for the document they encode, so \<open>{}\<close> is \<open>JObject []\<close>.
  Only integer numbers are represented; in a request every number is treated alike.
\<close>

datatype json =
    JNull
  | JBool bool
  | JNumber int
  | JString string
  | JArray "json list"
  | JObject "(string \<times> json) list"

text \<open>
  A value handed to \<open>json.Marshal\<close> as an \<open>interface{}\<close>. A struct is the list of its
  exported fields: the name of the \<open>json\<close> tag, whether the tag says \<open>omitempty\<close>, and the
  value. A map is the list of its entries in the order \<open>Marshal\<close> writes them (sorted by
  key); \<open>GoMap []\<close> is the empty map, which \<open>Marshal\<close> writes as \<open>{}\<close>. \<open>GoChan\<close> stands
  for the values \<open>Marshal\<close> has no encoding for (a channel, a function, a complex
  number). A string is a sequence of bytes, as in Go. \<open>Marshal\<close> escapes a string and a
  decoder undoes the escapes, so the document holds the string itself, but for one
  change: \<open>Marshal\<close> coerces a string to valid UTF-8 and replaces each byte that is not
  part of a valid encoding by U+FFFD (\<open>coerce_utf8\<close> below).
\<close>

datatype go_value =
    GoNil
  | GoBool bool
  | GoInt int
  | GoString string
  | GoSlice "go_value list"
  | GoMap "(string \<times> go_value) list"
  | GoStruct "(string \<times> bool \<times> go_value) list"
  | GoChan

text \<open>
  An \<open>error\<close> value: what \<open>==\<close> compares on the interface value (its dynamic type and
  value, numbered here) and the text its \<open>Error()\<close> method returns. A nil error is
  \<open>None\<close> of \<open>error option\<close>.
\<close>

datatype error = ErrorValue (ident: nat) (Error: string)

datatype json_error = SyntaxError | UnmarshalTypeError | UnsupportedTypeError

text \<open>What a \<open>panic\<close> carries: the error passed to it, or the runtime's index error.\<close>

datatype panic = PanicError error | PanicJSON json_error | IndexOutOfRange

section \<open>unicode/utf8: valid encodings\<close>

text \<open>
  \<open>rune_width s\<close> is the number of bytes of the valid UTF-8 encoding at the head of
  \<open>s\<close>, and 0 when there is none; \<open>utf8.DecodeRuneInString\<close> then returns
  \<open>RuneError\<close> with size 1. The ranges are those of the table of package
  \<open>unicode/utf8\<close>: after \<open>E0\<close> the second byte is \<open>A0..BF\<close>, after \<open>ED\<close> it is
  \<open>80..9F\<close>, after \<open>F0\<close> it is \<open>90..BF\<close>, after \<open>F4\<close> it is \<open>80..8F\<close>; the bytes
  \<open>80..C1\<close> and \<open>F5..FF\<close> start no encoding.
\<close>

definition in_range :: "nat \<Rightarrow> nat \<Rightarrow> char \<Rightarrow> bool" where
  "in_range lo hi c = (lo \<le> (of_char c :: nat) \<and> (of_char c :: nat) \<le> hi)"

definition rune_width :: "string \<Rightarrow> nat" where
  "rune_width s =
     (case s of
        [] \<Rightarrow> 0
      | c # cs \<Rightarrow>
          if in_range 0x00 0x7F c then 1
          else if in_range 0xC2 0xDF c then
            (case cs of
               c1 # _ \<Rightarrow> if in_range 0x80 0xBF c1 then 2 else 0
             | _ \<Rightarrow> 0)
          else if in_range 0xE0 0xEF c then
            (case cs of
               c1 # c2 # _ \<Rightarrow>
                 if in_range (if c = CHR 0xE0 then 0xA0 else 0x80)
                             (if c = CHR 0xED then 0x9F else 0xBF) c1
                    \<and> in_range 0x80 0xBF c2
                 then 3 else 0
             | _ \<Rightarrow> 0)
          else if in_range 0xF0 0xF4 c then
            (case cs of
               c1 # c2 # c3 # _ \<Rightarrow>
                 if in_range (if c = CHR 0xF0 then 0x90 else 0x80)
                             (if c = CHR 0xF4 then 0x8F else 0xBF) c1
                    \<and> in_range 0x80 0xBF c2 \<and> in_range 0x80 0xBF c3
                 then 4 else 0
             | _ \<Rightarrow> 0)
          else 0)"

text \<open>
  The loop of \<open>encoding/json\<close> over a string: a valid encoding is copied, a byte that
  starts none is replaced by U+FFFD (the bytes \<open>EF BF BD\<close>) and the loop goes on at the
  next byte. The first argument counts the bytes of the current encoding still to copy.
\<close>

fun coerce_from :: "nat \<Rightarrow> string \<Rightarrow> string" where
  "coerce_from k [] = []"
| "coerce_from (Suc k) (c # cs) = c # coerce_from k cs"
| "coerce_from 0 (c # cs) =
     (case rune_width (c # cs) of
        0 \<Rightarrow> [CHR 0xEF, CHR 0xBF, CHR 0xBD] @ coerce_from 0 cs
      | Suc n \<Rightarrow> c # coerce_from n cs)"

definition coerce_utf8 :: "string \<Rightarrow> string" where
  "coerce_utf8 s = coerce_from 0 s"

text \<open>\<open>utf8.ValidString\<close>: every byte is part of a valid encoding.\<close>

fun valid_from :: "nat \<Rightarrow> string \<Rightarrow> bool" where
  "valid_from k [] = True"
| "valid_from (Suc k) (c # cs) = valid_from k cs"
| "valid_from 0 (c # cs) =
     (case rune_width (c # cs) of
        0 \<Rightarrow> False
      | Suc n \<Rightarrow> valid_from n cs)"

definition ValidString :: "string \<Rightarrow> bool" where
  "ValidString s = valid_from 0 s"

section \<open>encoding/json: Marshal\<close>

text \<open>\<open>isEmptyValue\<close> of \<open>encoding/json\<close>: what \<open>omitempty\<close> leaves out.\<close>

fun isEmptyValue :: "go_value \<Rightarrow> bool" where
  "isEmptyValue GoNil = True"
| "isEmptyValue (GoBool b) = (\<not> b)"
| "isEmptyValue (GoInt i) = (i = 0)"
| "isEmptyValue (GoString s) = (s = [])"
| "isEmptyValue (GoSlice xs) = (xs = [])"
| "isEmptyValue (GoMap kvs) = (kvs = [])"
| "isEmptyValue (GoStruct fs) = False"
| "isEmptyValue GoChan = False"

fun Marshal :: "go_value \<Rightarrow> json_error + json"
  and Marshal_elems :: "go_value list \<Rightarrow> json_error + json list"
  and Marshal_entries :: "(string \<times> go_value) list \<Rightarrow> json_error + (string \<times> json) list"
  and Marshal_fields :: "(string \<times> bool \<times> go_value) list \<Rightarrow> json_error + (string \<times> json) list"
where
  "Marshal GoNil = Inr JNull"
| "Marshal (GoBool b) = Inr (JBool b)"
| "Marshal (GoInt i) = Inr (JNumber i)"
| "Marshal (GoString s) = Inr (JString (coerce_utf8 s))"
| "Marshal (GoSlice xs) =
     (case Marshal_elems xs of Inl e \<Rightarrow> Inl e | Inr ds \<Rightarrow> Inr (JArray ds))"
| "Marshal (GoMap kvs) =
     (case Marshal_entries kvs of Inl e \<Rightarrow> Inl e | Inr ms \<Rightarrow> Inr (JObject ms))"
| "Marshal (GoStruct fs) =
     (case Marshal_fields fs of Inl e \<Rightarrow> Inl e | Inr ms \<Rightarrow> Inr (JObject ms))"
| "Marshal GoChan = Inl UnsupportedTypeError"
| "Marshal_elems [] = Inr []"
| "Marshal_elems (x # xs) =
     (case Marshal x of Inl e \<Rightarrow> Inl e
      | Inr d \<Rightarrow> (case Marshal_elems xs of Inl e \<Rightarrow> Inl e | Inr ds \<Rightarrow> Inr (d # ds)))"
| "Marshal_entries [] = Inr []"
| "Marshal_entries ((k, v) # kvs) =
     (case Marshal v of Inl e \<Rightarrow> Inl e
      | Inr d \<Rightarrow>
          (case Marshal_entries kvs of
             Inl e \<Rightarrow> Inl e
           | Inr ms \<Rightarrow> Inr ((coerce_utf8 k, d) # ms)))"
| "Marshal_fields [] = Inr []"
| "Marshal_fields ((name, omitempty, v) # fs) =
     (if omitempty \<and> isEmptyValue v then Marshal_fields fs
      else (case Marshal v of Inl e \<Rightarrow> Inl e
            | Inr d \<Rightarrow> (case Marshal_fields fs of Inl e \<Rightarrow> Inl e | Inr ms \<Rightarrow> Inr ((name, d) # ms))))"

section \<open>net/http: the response writer\<close>

text \<open>
  The state of a response writer as \<open>httptest.ResponseRecorder\<close> keeps it: the header
  map, the status code once the header is written, and the bodies written so far.
  \<open>WriteHeader\<close> after the header is written changes nothing; \<open>Write\<close> before it
  writes the header with status 200 first.
\<close>

record ResponseWriter =
  HeaderMap :: "string \<rightharpoonup> string list"
  Code :: "int option"
  Written :: "json list"

definition NewRecorder :: ResponseWriter where
  "NewRecorder = \<lparr>HeaderMap = Map.empty, Code = None, Written = []\<rparr>"

definition Header_Set :: "ResponseWriter \<Rightarrow> string \<Rightarrow> string \<Rightarrow> ResponseWriter" where
  "Header_Set w key v = w\<lparr>HeaderMap := (HeaderMap w)(key \<mapsto> [v])\<rparr>"

definition WriteHeader :: "ResponseWriter \<Rightarrow> int \<Rightarrow> ResponseWriter" where
  "WriteHeader w code = (case Code w of None \<Rightarrow> w\<lparr>Code := Some code\<rparr> | Some c \<Rightarrow> w)"

definition StatusOK :: int where "StatusOK = 200"
definition StatusCreated :: int where "StatusCreated = 201"
definition StatusBadRequest :: int where "StatusBadRequest = 400"
definition StatusConflict :: int where "StatusConflict = 409"
definition StatusGone :: int where "StatusGone = 410"
definition StatusInternalServerError :: int where "StatusInternalServerError = 500"

definition Write :: "ResponseWriter \<Rightarrow> json \<Rightarrow> ResponseWriter" where
  "Write w body = (let w' = WriteHeader w StatusOK in w'\<lparr>Written := Written w' @ [body]\<rparr>)"

section \<open>responding.go\<close>

definition Failure :: "string \<Rightarrow> go_value" where
  "Failure Description = GoStruct [(''description'', False, GoString Description)]"

definition EmptyJSON :: go_value where
  "EmptyJSON = GoMap []"

text \<open>
  \<open>respond\<close> returns the writer as it leaves it and the panic, if any. The panic comes
  before any call on the writer.
\<close>

definition respond :: "ResponseWriter \<Rightarrow> int \<Rightarrow> go_value \<Rightarrow> ResponseWriter \<times> panic option" where
  "respond w code response =
     (case Marshal response of
        Inl err \<Rightarrow> (w, Some (PanicJSON err))
      | Inr body \<Rightarrow>
          (Write (WriteHeader (Header_Set w ''Content-Type'' ''application/json'') code) body,
           None))"

section \<open>encoding/json: Unmarshal into the parameters of a bind request\<close>

text \<open>
  The body of a request as \<open>ioutil.ReadAll\<close> and \<open>json.Unmarshal\<close> see it: reading
  fails with an error, or the bytes read are not a JSON text, or they encode a document.
\<close>

datatype payload = Malformed | Document json

datatype body = ReadFails error | Reads payload

definition ReadAll :: "body \<Rightarrow> error + payload" where
  "ReadAll b = (case b of ReadFails err \<Rightarrow> Inl err | Reads bytes \<Rightarrow> Inr bytes)"

text \<open>
  \<open>Unmarshal\<close> matches an object key to a struct field by the field's tag, "preferring an
  exact match but also accepting a case-insensitive match" (package documentation).
  Case-insensitive is Unicode simple folding: \<open>fold_forms c\<close> lists the UTF-8 encodings
  that fold to the ASCII character \<open>c\<close> of a tag: the character, the letter in the other
  case, U+017F for \<open>s\<close> and U+212A for \<open>k\<close>.
\<close>

definition is_lower :: "char \<Rightarrow> bool" where
  "is_lower c = (97 \<le> (of_char c :: nat) \<and> (of_char c :: nat) \<le> 122)"

definition is_upper :: "char \<Rightarrow> bool" where
  "is_upper c = (65 \<le> (of_char c :: nat) \<and> (of_char c :: nat) \<le> 90)"

definition fold_forms :: "char \<Rightarrow> string list" where
  "fold_forms c =
     [[c]]
     @ (if is_lower c then [[char_of ((of_char c :: nat) - 32)]] else [])
     @ (if is_upper c then [[char_of ((of_char c :: nat) + 32)]] else [])
     @ (if c = CHR ''s'' \<or> c = CHR ''S'' then [[CHR 0xC5, CHR 0xBF]] else [])
     @ (if c = CHR ''k'' \<or> c = CHR ''K'' then [[CHR 0xE2, CHR 0x84, CHR 0xAA]] else [])"

fun equalFold :: "string \<Rightarrow> string \<Rightarrow> bool" where
  "equalFold [] key = (key = [])"
| "equalFold (c # cs) key =
     list_ex (\<lambda>f. take (length f) key = f \<and> equalFold cs (drop (length f) key)) (fold_forms c)"

text \<open>
  The local struct \<open>params\<close> of \<open>Parse\<close>, three string fields tagged \<open>service_id\<close>,
  \<open>plan_id\<close> and \<open>app_guid\<close>.
\<close>

record params =
  ServiceID :: string
  PlanID :: string
  AppGUID :: string

text \<open>
  Storing a JSON value into a string field: a string is stored, \<open>null\<close> leaves the field
  as it is, anything else is an \<open>UnmarshalTypeError\<close>.
\<close>

definition store_string :: "json \<Rightarrow> string \<Rightarrow> json_error + string" where
  "store_string v old =
     (case v of JString s \<Rightarrow> Inr s | JNull \<Rightarrow> Inr old | _ \<Rightarrow> Inl UnmarshalTypeError)"

text \<open>
  The members of the object are decoded in order, so the last of several members that
  match one field wins; a key that matches no field is skipped. The library reports a
  type error after it has decoded the whole object; \<open>Parse\<close> panics on it and drops
  \<open>params\<close>, so the model stops at the first one.
\<close>

fun decode_members :: "(string \<times> json) list \<Rightarrow> params \<Rightarrow> json_error + params" where
  "decode_members [] p = Inr p"
| "decode_members ((key, v) # ms) p =
     (if equalFold ''service_id'' key then
        (case store_string v (params.ServiceID p) of
           Inl e \<Rightarrow> Inl e | Inr s \<Rightarrow> decode_members ms (p\<lparr>params.ServiceID := s\<rparr>))
      else if equalFold ''plan_id'' key then
        (case store_string v (params.PlanID p) of
           Inl e \<Rightarrow> Inl e | Inr s \<Rightarrow> decode_members ms (p\<lparr>params.PlanID := s\<rparr>))
      else if equalFold ''app_guid'' key then
        (case store_string v (params.AppGUID p) of
           Inl e \<Rightarrow> Inl e | Inr s \<Rightarrow> decode_members ms (p\<lparr>params.AppGUID := s\<rparr>))
      else decode_members ms p)"

definition Unmarshal :: "payload \<Rightarrow> params \<Rightarrow> json_error + params" where
  "Unmarshal bytes p =
     (case bytes of
        Malformed \<Rightarrow> Inl SyntaxError
      | Document JNull \<Rightarrow> Inr p
      | Document (JObject ms) \<Rightarrow> decode_members ms p
      | Document _ \<Rightarrow> Inl UnmarshalTypeError)"

section \<open>regexp: the path of a binding\<close>

text \<open>
  \<open>FindStringSubmatch\<close> for the expression
  \<^verbatim>\<open>^/v2/service_instances/(.*)/service_bindings/(.*)$\<close>: the whole match and the two
  groups, or nil (the empty list) when the path does not match. \<open>.\<close> matches no newline,
  and the first \<open>(.*)\<close> is greedy: it runs to the last \<open>/service_bindings/\<close>.
\<close>

fun last_split :: "string \<Rightarrow> string \<Rightarrow> (string \<times> string) option" where
  "last_split sep [] = (if sep = [] then Some ([], []) else None)"
| "last_split sep (c # cs) =
     (case last_split sep cs of
        Some (a, b) \<Rightarrow> Some (c # a, b)
      | None \<Rightarrow>
          if take (length sep) (c # cs) = sep then Some ([], drop (length sep) (c # cs))
          else None)"

definition FindStringSubmatch :: "string \<Rightarrow> string list" where
  "FindStringSubmatch path =
     (let prefix = ''/v2/service_instances/''; rest = drop (length prefix) path in
      if take (length prefix) path = prefix \<and> CHR 0x0A \<notin> set rest
      then (case last_split ''/service_bindings/'' rest of
              None \<Rightarrow> []
            | Some (instance, binding) \<Rightarrow> [path, instance, binding])
      else [])"

section \<open>bind_handler.go\<close>

record BindRequest =
  BindingID :: string
  InstanceID :: string
  ServiceID :: string
  PlanID :: string
  AppGUID :: string

text \<open>
  \<open>domain.BindingCredentials\<close> is a map from strings to \<open>interface{}\<close> values (the test
  fills it with strings and an int); the nil map and the empty map are both \<open>[]\<close>
  (\<open>omitempty\<close> treats them alike).
\<close>

type_synonym BindingCredentials = "(string \<times> go_value) list"

record BindResponse =
  Credentials :: BindingCredentials
  SyslogDrainURL :: string

text \<open>The interface \<open>Binder\<close>: one method, \<open>Bind\<close>.\<close>

type_synonym Binder = "BindRequest \<Rightarrow> BindResponse \<times> error option"

record Request =
  URL_Path :: string
  Body :: body

definition Parse :: "Request \<Rightarrow> panic + BindRequest" where
  "Parse req =
     (case ReadAll (Body req) of
        Inl err \<Rightarrow> Inl (PanicError err)
      | Inr body \<Rightarrow>
          (case Unmarshal body
                  \<lparr>params.ServiceID = [], params.PlanID = [], params.AppGUID = []\<rparr> of
             Inl err \<Rightarrow> Inl (PanicJSON err)
           | Inr params \<Rightarrow>
               (let matches = FindStringSubmatch (URL_Path req) in
                if length matches \<le> 2 then Inl IndexOutOfRange
                else Inr \<lparr>BindingID = matches ! 2,
                          InstanceID = matches ! 1,
                          ServiceID = params.ServiceID params,
                          PlanID = params.PlanID params,
                          AppGUID = params.AppGUID params\<rparr>)))"

text \<open>
  A run of a handler: the writer as the handler leaves it, the requests it passed to
  its collaborator, and the panic that ended it, if any.
\<close>

record 'r outcome =
  writer :: ResponseWriter
  calls :: "'r list"
  panicked :: "panic option"

definition returned :: "'r list \<Rightarrow> ResponseWriter \<times> panic option \<Rightarrow> 'r outcome" where
  "returned cs r = \<lparr>writer = fst r, calls = cs, panicked = snd r\<rparr>"

text \<open>
  \<open>domain.ServiceBindingAlreadyExistsError\<close> is declared in package \<open>domain\<close>, which is
  not among the source files; the handler compares the binder's error with it by \<open>==\<close>,
  so it is one error value. It is the first argument here, and any error value may
  stand for it.
\<close>

definition ServeHTTP :: "error \<Rightarrow> Binder \<Rightarrow> ResponseWriter \<Rightarrow> Request \<Rightarrow> BindRequest outcome" where
  "ServeHTTP ServiceBindingAlreadyExistsError binder w req =
     (case Parse req of
        Inl p \<Rightarrow> \<lparr>writer = w, calls = [], panicked = Some p\<rparr>
      | Inr request \<Rightarrow>
          (case binder request of
             (response, Some err) \<Rightarrow>
               if err = ServiceBindingAlreadyExistsError
               then returned [request] (respond w StatusConflict EmptyJSON)
               else returned [request]
                      (respond w StatusInternalServerError (Failure (Error err)))
           | (response, None) \<Rightarrow>
               returned [request]
                 (respond w StatusCreated
                    (GoStruct [(''credentials'', True, GoMap (Credentials response)),
                               (''syslog_drain_url'', True, GoString (SyslogDrainURL response))]))))"

text \<open>The test double of \<open>bind_handler_test.go\<close>: \<open>Bind\<close> returns the fields it was given.\<close>

definition Bind :: "BindingCredentials \<Rightarrow> string \<Rightarrow> error option \<Rightarrow> Binder" where
  "Bind credentials url err binding =
     (\<lparr>Credentials = credentials, SyslogDrainURL = url\<rparr>, err)"

text \<open>
  The requests of \<open>bind_handler_test.go\<close>: a PUT to the path of a binding, with a JSON
  object as body.
\<close>

definition binding_path :: string where
  "binding_path = ''/v2/service_instances/instance-guid/service_bindings/binding-guid''"

definition put_binding :: "(string \<times> json) list \<Rightarrow> Request" where
  "put_binding ms = \<lparr>URL_Path = binding_path, Body = Reads (Document (JObject ms))\<rparr>"

text \<open>The bodies the tests send: all three fields, and the one without \<open>app_guid\<close>.\<close>

definition full_body :: "(string \<times> json) list" where
  "full_body = [(''service_id'', JString ''my-service-id''),
                (''plan_id'', JString ''my-plan-id''),
                (''app_guid'', JString ''my-app-guid'')]"

definition keyless_body :: "(string \<times> json) list" where
  "keyless_body = [(''service_id'', JString ''service-id''), (''plan_id'', JString ''plan-id'')]"

section \<open>The Deprovision handler\<close>

text \<open>
  Modelled from the spec: the outcome of a collaborator call (package \<open>domain\<close> is
  missing). Section 3, DomainError: a kind, one of AlreadyExists, NotFound and Generic,
  and a message.
\<close>

datatype kind = AlreadyExists | NotFound | Generic

record DomainError =
  kind :: kind
  message :: string

text \<open>
  Modelled from the spec: the typed request of Deprovision (package \<open>domain\<close> is
  missing). Section 3, DeprovisionRequest: instanceID, serviceID, planID.
\<close>

record DeprovisionRequest =
  instanceID :: string
  serviceID :: string
  planID :: string

text \<open>
  Modelled from the spec: the raw request of a delete-style endpoint (the handler that
  reads it, \<open>deprovision_handler.go\<close>, is missing). Section 4.1: the \<open>instance_id\<close>
  segment of the path the router matched, and the query parameters.
\<close>

record DeleteRequest =
  instance_id :: string
  query :: "string \<rightharpoonup> string"

text \<open>
  Modelled from the spec: the parser of the Deprovision endpoint (\<open>deprovision_handler.go\<close>
  is missing). Section 4.1: the query parameters \<open>service_id\<close> and \<open>plan_id\<close> are both
  required; a missing one is a validation failure tagged "missing required field:"
  followed by the name of the field.
\<close>

definition ParseDeprovision :: "DeleteRequest \<Rightarrow> string + DeprovisionRequest" where
  "ParseDeprovision req =
     (case query req ''service_id'' of
        None \<Rightarrow> Inl ''missing required field: service_id''
      | Some service \<Rightarrow>
          (case query req ''plan_id'' of
             None \<Rightarrow> Inl ''missing required field: plan_id''
           | Some plan \<Rightarrow>
               Inr \<lparr>instanceID = instance_id req, serviceID = service, planID = plan\<rparr>))"

text \<open>
  Modelled from the spec: the error taxonomy mapper (package domain and the handlers
  that classify its errors are missing). Section 4.3: AlreadyExists gives 409 with body
  \<open>{}\<close>, NotFound gives 410 with body \<open>{}\<close>, any other error gives 500 with the message
  as description, and no error gives the handler's success status and body.
\<close>

definition map_error :: "DomainError option \<Rightarrow> int \<times> go_value \<Rightarrow> int \<times> go_value" where
  "map_error err success =
     (case err of
        None \<Rightarrow> success
      | Some e \<Rightarrow>
          (case kind e of
             AlreadyExists \<Rightarrow> (StatusConflict, EmptyJSON)
           | NotFound \<Rightarrow> (StatusGone, EmptyJSON)
           | Generic \<Rightarrow> (StatusInternalServerError, Failure (message e))))"

type_synonym Deprovisioner = "DeprovisionRequest \<Rightarrow> DomainError option"

text \<open>
  Modelled from the spec: the Deprovision handler (\<open>deprovision_handler.go\<close> is missing;
  its test, \<open>deprovision_handler_test.go\<close>, is among the files).
  Section 4.2: parse and validate, on failure respond 400 with the message as
  description and do not invoke the collaborator; otherwise invoke it once and respond
  with 200 and \<open>{}\<close> on success, or as the mapper says on error.
\<close>

definition DeprovisionHandler_ServeHTTP ::
  "Deprovisioner \<Rightarrow> ResponseWriter \<Rightarrow> DeleteRequest \<Rightarrow> DeprovisionRequest outcome" where
  "DeprovisionHandler_ServeHTTP deprovisioner w req =
     (case ParseDeprovision req of
        Inl msg \<Rightarrow> returned [] (respond w StatusBadRequest (Failure msg))
      | Inr request \<Rightarrow>
          (case map_error (deprovisioner request) (StatusOK, EmptyJSON) of
             (status, body) \<Rightarrow> returned [request] (respond w status body)))"


section \<open>Lemmas on the writer, the parser and Marshal\<close>

lemma respond_EmptyJSON:
  "respond w code EmptyJSON =
     (Write (WriteHeader (Header_Set w ''Content-Type'' ''application/json'') code) (JObject []),
      None)"
  by (simp add: respond_def EmptyJSON_def)

text \<open>A valid string is encoded as it is.\<close>

lemma coerce_from_valid: "valid_from k s \<Longrightarrow> coerce_from k s = s"
  by (induction k s rule: coerce_from.induct) (auto split: nat.splits)

lemma coerce_utf8_valid: "ValidString s \<Longrightarrow> coerce_utf8 s = s"
  by (simp add: ValidString_def coerce_utf8_def coerce_from_valid)

lemmas utf8_simps = coerce_utf8_def ValidString_def rune_width_def in_range_def

lemma respond_Failure:
  "respond w code (Failure msg) =
     (Write (WriteHeader (Header_Set w ''Content-Type'' ''application/json'') code)
        (JObject [(''description'', JString (coerce_utf8 msg))]), None)"
  by (simp add: respond_def Failure_def)

text \<open>On a writer nothing was written to, the three calls of \<open>respond\<close> leave this state.\<close>

lemma write_fresh:
  assumes "Code w = None" and "Written w = []"
  shows "Write (WriteHeader (Header_Set w key v) code) doc =
           w\<lparr>HeaderMap := (HeaderMap w)(key \<mapsto> [v]), Code := Some code, Written := [doc]\<rparr>"
  using assms by (simp add: Write_def WriteHeader_def Header_Set_def Let_def)

lemma fresh_NewRecorder: "Code NewRecorder = None" "Written NewRecorder = []"
  by (simp_all add: NewRecorder_def)

lemma FindStringSubmatch_binding_path:
  "FindStringSubmatch binding_path = [binding_path, ''instance-guid'', ''binding-guid'']"
  unfolding binding_path_def by code_simp

lemma Parse_put_binding:
  "Parse (put_binding ms) =
     (case decode_members ms \<lparr>params.ServiceID = [], params.PlanID = [], params.AppGUID = []\<rparr> of
        Inl err \<Rightarrow> Inl (PanicJSON err)
      | Inr p \<Rightarrow> Inr \<lparr>BindingID = ''binding-guid'', InstanceID = ''instance-guid'',
                     ServiceID = params.ServiceID p, PlanID = params.PlanID p,
                     AppGUID = params.AppGUID p\<rparr>)"
  by (simp add: put_binding_def Parse_def ReadAll_def Unmarshal_def
        FindStringSubmatch_binding_path Let_def split: sum.splits)

lemmas fold_simps = fold_forms_def is_lower_def is_upper_def store_string_def

lemma Parse_full_body:
  "Parse (put_binding full_body) =
     Inr \<lparr>BindingID = ''binding-guid'', InstanceID = ''instance-guid'',
          ServiceID = ''my-service-id'', PlanID = ''my-plan-id'', AppGUID = ''my-app-guid''\<rparr>"
  by (simp add: Parse_put_binding full_body_def fold_simps)

lemma Parse_keyless_body:
  "Parse (put_binding keyless_body) =
     Inr \<lparr>BindingID = ''binding-guid'', InstanceID = ''instance-guid'',
          ServiceID = ''service-id'', PlanID = ''plan-id'', AppGUID = []\<rparr>"
  by (simp add: Parse_put_binding keyless_body_def fold_simps)

lemma decode_upper_case_key:
  "decode_members (keyless_body @ [(''APP_GUID'', JString ''app-guid'')])
     \<lparr>params.ServiceID = [], params.PlanID = [], params.AppGUID = []\<rparr> =
   Inr \<lparr>params.ServiceID = ''service-id'', params.PlanID = ''plan-id'',
        params.AppGUID = ''app-guid''\<rparr>"
  unfolding keyless_body_def by code_simp

lemma Parse_upper_case_key:
  "Parse (put_binding (keyless_body @ [(''APP_GUID'', JString ''app-guid'')])) =
     Inr \<lparr>BindingID = ''binding-guid'', InstanceID = ''instance-guid'',
          ServiceID = ''service-id'', PlanID = ''plan-id'', AppGUID = ''app-guid''\<rparr>"
  by (simp add: Parse_put_binding decode_upper_case_key)

text \<open>The body of a successful bind, when the credentials have an encoding.\<close>

lemma Marshal_response:
  assumes "Marshal (GoMap cs) = Inr credentials"
  shows "Marshal (GoStruct [(''credentials'', True, GoMap cs),
                             (''syslog_drain_url'', True, GoString url)]) =
           Inr (JObject ((if cs = [] then [] else [(''credentials'', credentials)])
                         @ (if url = [] then []
                            else [(''syslog_drain_url'', JString (coerce_utf8 url))])))"
  using assms by (auto split: sum.splits)

lemma Marshal_struct_object:
  "Marshal (GoStruct fs) = Inr doc \<Longrightarrow> \<exists>ms. doc = JObject ms"
  by (auto split: sum.splits)

text \<open>A member whose key does not fold to \<open>app_guid\<close> leaves the field \<open>AppGUID\<close> alone.\<close>

lemma decode_members_keeps_AppGUID:
  assumes "decode_members ms p = Inr p'"
    and "\<forall>k \<in> fst ` set ms. \<not> equalFold ''app_guid'' k"
  shows "params.AppGUID p' = params.AppGUID p"
  using assms
proof (induction ms arbitrary: p)
  case Nil
  then show ?case by simp
next
  case (Cons m ms)
  obtain key v where m: "m = (key, v)" by (cases m)
  from Cons.prems(2) m have nk: "\<not> equalFold ''app_guid'' key"
    and rest: "\<forall>k \<in> fst ` set ms. \<not> equalFold ''app_guid'' k" by auto
  from Cons.prems(1) m nk obtain q where q: "decode_members ms q = Inr p'"
    and qa: "params.AppGUID q = params.AppGUID p"
    by (auto split: if_splits sum.splits)
  from Cons.IH [OF q rest] qa show ?case by simp
qed

lemma Parse_AppGUID:
  assumes "Body req = Reads (Document (JObject ms))"
    and "\<forall>k \<in> fst ` set ms. \<not> equalFold ''app_guid'' k"
    and "Parse req = Inr request"
  shows "AppGUID request = []"
proof -
  from assms(1,3) obtain p where
    d: "decode_members ms \<lparr>params.ServiceID = [], params.PlanID = [], params.AppGUID = []\<rparr> = Inr p"
    and r: "AppGUID request = params.AppGUID p"
    by (auto simp: Parse_def ReadAll_def Unmarshal_def Let_def split: sum.splits if_splits)
  from decode_members_keeps_AppGUID [OF d assms(2)] r show ?thesis by simp
qed

lemma respond_returns:
  assumes "snd (respond w code v) = None" and "Code w = None" and "Written w = []"
  shows "\<exists>doc. Marshal v = Inr doc \<and>
           fst (respond w code v) =
             w\<lparr>HeaderMap := (HeaderMap w)(''Content-Type'' \<mapsto> [''application/json'']),
               Code := Some code, Written := [doc]\<rparr>"
  using assms by (auto simp: respond_def write_fresh split: sum.splits)

text \<open>
  Whenever the Bind handler has written a status, it has set the content type and written
  one JSON object, and the status is one of 201, 409 and 500.
\<close>

lemma ServeHTTP_written:
  assumes "Code w = None" and "Written w = []"
    and "Code (writer (ServeHTTP ServiceBindingAlreadyExistsError b w req)) = Some code"
  shows "HeaderMap (writer (ServeHTTP ServiceBindingAlreadyExistsError b w req)) ''Content-Type'' =
           Some [''application/json'']
         \<and> (\<exists>ms. Written (writer (ServeHTTP ServiceBindingAlreadyExistsError b w req)) = [JObject ms])
         \<and> code \<in> {StatusCreated, StatusConflict, StatusInternalServerError}"
proof (cases "Parse req")
  case (Inl p)
  with assms show ?thesis by (simp add: ServeHTTP_def)
next
  case (Inr request)
  obtain response err where r: "b request = (response, err)" by (cases "b request")
  show ?thesis
  proof (cases err)
    case None
    let ?v = "GoStruct [(''credentials'', True, GoMap (Credentials response)),
                        (''syslog_drain_url'', True, GoString (SyslogDrainURL response))]"
    from Inr r None have out: "ServeHTTP ServiceBindingAlreadyExistsError b w req =
        returned [request] (respond w StatusCreated ?v)"
      by (simp add: ServeHTTP_def)
    show ?thesis
    proof (cases "Marshal ?v")
      case (Inl e)
      then have "respond w StatusCreated ?v = (w, Some (PanicJSON e))"
        by (simp add: respond_def)
      with out assms show ?thesis by (simp add: returned_def)
    next
      case (Inr doc)
      then obtain ms where "doc = JObject ms" using Marshal_struct_object by blast
      with Inr have "respond w StatusCreated ?v =
          (w\<lparr>HeaderMap := (HeaderMap w)(''Content-Type'' \<mapsto> [''application/json'']),
             Code := Some StatusCreated, Written := [JObject ms]\<rparr>, None)"
        using assms(1,2) by (simp add: respond_def write_fresh)
      with out assms(3) show ?thesis by (auto simp: returned_def)
    qed
  next
    case (Some e)
    with Inr r assms show ?thesis
      by (cases "e = ServiceBindingAlreadyExistsError")
        (auto simp: ServeHTTP_def returned_def respond_EmptyJSON respond_Failure write_fresh)
  qed
qed

section \<open>The Bind handler on a body it cannot use\<close>

text \<open>
  C1. The claim: on a body that is not parsable as JSON the Bind handler responds 400
  with a description that contains "JSON", does not invoke the binder and does not
  panic. The code does otherwise: \<open>Parse\<close> panics on the error of \<open>json.Unmarshal\<close>, so for
  every request with such a body, every binder and every writer, the handler ends in a
  panic with the writer untouched. The binder is not invoked.
\<close>

theorem malformed_body_panics:
  "ServeHTTP ServiceBindingAlreadyExistsError b w (req\<lparr>Body := Reads Malformed\<rparr>) =
     \<lparr>writer = w, calls = [], panicked = Some (PanicJSON SyntaxError)\<rparr>"
  by (simp add: ServeHTTP_def Parse_def ReadAll_def Unmarshal_def)

text \<open>
  C2. The claim: on a body without \<open>service_id\<close> or \<open>plan_id\<close> the Bind handler responds
  400 with "missing required field" and does not invoke the binder. The code does
  otherwise: \<open>Parse\<close> checks no field. On the body \<open>{}\<close> every binder is invoked, with
  empty \<open>ServiceID\<close> and \<open>PlanID\<close>, and with the binder of the test the response is 201
  with body \<open>{}\<close>.
\<close>

theorem missing_fields_reach_binder:
  "calls (ServeHTTP ServiceBindingAlreadyExistsError b w (put_binding [])) =
     [\<lparr>BindingID = ''binding-guid'', InstanceID = ''instance-guid'',
       ServiceID = [], PlanID = [], AppGUID = []\<rparr>]
   \<and> writer (ServeHTTP ServiceBindingAlreadyExistsError (Bind [] [] None) NewRecorder
               (put_binding [])) =
     \<lparr>HeaderMap = [''Content-Type'' \<mapsto> [''application/json'']],
      Code = Some 201, Written = [JObject []]\<rparr>"
  by (simp add: ServeHTTP_def Parse_put_binding returned_def Bind_def respond_def
        NewRecorder_def Write_def WriteHeader_def Header_Set_def Let_def
        StatusCreated_def StatusOK_def split: prod.splits option.splits)

section \<open>The errors of the binder\<close>

text \<open>
  C3. When the binder, invoked with the parsed request, returns the error
  \<open>ServiceBindingAlreadyExistsError\<close>, the handler responds with status 409 and body
  \<open>{}\<close> on a writer nothing was written to. The error is any value, so this holds for
  every message text it carries.
\<close>

theorem already_exists_conflict:
  assumes "Parse req = Inr request"
    and "b request = (response, Some ServiceBindingAlreadyExistsError)"
    and "Code w = None" and "Written w = []"
  shows "ServeHTTP ServiceBindingAlreadyExistsError b w req =
           \<lparr>writer = w\<lparr>HeaderMap := (HeaderMap w)(''Content-Type'' \<mapsto> [''application/json'']),
                        Code := Some 409, Written := [JObject []]\<rparr>,
            calls = [request], panicked = None\<rparr>"
  using assms
  by (simp add: ServeHTTP_def returned_def respond_EmptyJSON write_fresh StatusConflict_def)

theorem already_exists_conflict_witness:
  "ServeHTTP (ErrorValue 7 ''already exists'')
     (Bind [(''password'', GoString ''pass'')] ''syslog://something''
        (Some (ErrorValue 7 ''already exists'')))
     NewRecorder (put_binding full_body) =
   \<lparr>writer = \<lparr>HeaderMap = [''Content-Type'' \<mapsto> [''application/json'']],
               Code = Some 409, Written = [JObject []]\<rparr>,
    calls = [\<lparr>BindingID = ''binding-guid'', InstanceID = ''instance-guid'',
              ServiceID = ''my-service-id'', PlanID = ''my-plan-id'',
              AppGUID = ''my-app-guid''\<rparr>],
    panicked = None\<rparr>"
  using already_exists_conflict [where w = NewRecorder
      and ServiceBindingAlreadyExistsError = "ErrorValue 7 ''already exists''"
      and b = "Bind [(''password'', GoString ''pass'')] ''syslog://something''
                 (Some (ErrorValue 7 ''already exists''))",
      OF Parse_full_body _ fresh_NewRecorder]
  by (simp add: Bind_def NewRecorder_def)

text \<open>
  C4, as amended. When the binder returns an error \<open>E\<close> other than
  \<open>ServiceBindingAlreadyExistsError\<close> and the message \<open>E.Error()\<close> is valid UTF-8, the
  handler responds with status 500 and the body \<open>{"description": E.Error()}\<close>: the
  message is passed on as it is.
\<close>

theorem other_error_internal:
  assumes "Parse req = Inr request"
    and "b request = (response, Some E)"
    and "E \<noteq> ServiceBindingAlreadyExistsError"
    and "ValidString (Error E)"
    and "Code w = None" and "Written w = []"
  shows "ServeHTTP ServiceBindingAlreadyExistsError b w req =
           \<lparr>writer = w\<lparr>HeaderMap := (HeaderMap w)(''Content-Type'' \<mapsto> [''application/json'']),
                        Code := Some 500,
                        Written := [JObject [(''description'', JString (Error E))]]\<rparr>,
            calls = [request], panicked = None\<rparr>"
  using assms
  by (simp add: ServeHTTP_def returned_def respond_Failure write_fresh coerce_utf8_valid
        StatusInternalServerError_def)

theorem other_error_internal_witness:
  "ServeHTTP (ErrorValue 7 ''already exists'') (Bind [] [] (Some (ErrorValue 3 ''BANG!'')))
     NewRecorder (put_binding full_body) =
   \<lparr>writer = \<lparr>HeaderMap = [''Content-Type'' \<mapsto> [''application/json'']],
               Code = Some 500, Written = [JObject [(''description'', JString ''BANG!'')]]\<rparr>,
    calls = [\<lparr>BindingID = ''binding-guid'', InstanceID = ''instance-guid'',
              ServiceID = ''my-service-id'', PlanID = ''my-plan-id'',
              AppGUID = ''my-app-guid''\<rparr>],
    panicked = None\<rparr>"
proof -
  have v: "ValidString (Error (ErrorValue 3 ''BANG!''))"
    by (simp add: utf8_simps)
  show ?thesis
    using other_error_internal [where w = NewRecorder
        and ServiceBindingAlreadyExistsError = "ErrorValue 7 ''already exists''"
        and E = "ErrorValue 3 ''BANG!''"
        and b = "Bind [] [] (Some (ErrorValue 3 ''BANG!''))",
        OF Parse_full_body _ _ v fresh_NewRecorder]
    by (simp add: Bind_def NewRecorder_def)
qed

text \<open>
  C4 as the claim states it fails on a message that is not valid UTF-8. For the error
  whose message is the one byte \<open>FF\<close> the handler responds with status 500, but the
  description is U+FFFD (the bytes \<open>EF BF BD\<close>), not the message.
\<close>

theorem other_error_internal_counterexample:
  "Error (ErrorValue 3 [CHR 0xFF]) = [CHR 0xFF]
   \<and> writer (ServeHTTP (ErrorValue 7 ''already exists'')
               (Bind [] [] (Some (ErrorValue 3 [CHR 0xFF])))
               NewRecorder (put_binding full_body)) =
     \<lparr>HeaderMap = [''Content-Type'' \<mapsto> [''application/json'']],
      Code = Some 500,
      Written = [JObject [(''description'', JString [CHR 0xEF, CHR 0xBF, CHR 0xBD])]]\<rparr>
   \<and> Written (writer (ServeHTTP (ErrorValue 7 ''already exists'')
                        (Bind [] [] (Some (ErrorValue 3 [CHR 0xFF])))
                        NewRecorder (put_binding full_body))) \<noteq>
     [JObject [(''description'', JString (Error (ErrorValue 3 [CHR 0xFF])))]]"
  by (simp add: ServeHTTP_def Parse_full_body Bind_def returned_def respond_Failure
        write_fresh fresh_NewRecorder StatusInternalServerError_def utf8_simps)
    (simp add: NewRecorder_def)

section \<open>Deprovision of an instance that does not exist\<close>

text \<open>
  C5. When the deprovisioner, invoked with the parsed request, returns an error of kind
  NotFound, the Deprovision handler responds with status 410 and body \<open>{}\<close>, and the
  status is not 404. The handler is the one modelled from the specification.
\<close>

theorem deprovision_not_found_gone:
  assumes "ParseDeprovision req = Inr request"
    and "deprovisioner request = Some e"
    and "kind e = NotFound"
    and "Code w = None" and "Written w = []"
  shows "DeprovisionHandler_ServeHTTP deprovisioner w req =
           \<lparr>writer = w\<lparr>HeaderMap := (HeaderMap w)(''Content-Type'' \<mapsto> [''application/json'']),
                        Code := Some 410, Written := [JObject []]\<rparr>,
            calls = [request], panicked = None\<rparr>
         \<and> Code (writer (DeprovisionHandler_ServeHTTP deprovisioner w req)) \<noteq> Some 404"
  using assms
  by (simp add: DeprovisionHandler_ServeHTTP_def map_error_def returned_def
        respond_EmptyJSON write_fresh StatusGone_def)

theorem deprovision_not_found_gone_witness:
  "DeprovisionHandler_ServeHTTP
     (\<lambda>r. Some \<lparr>kind = NotFound, message = ''that instance does not exist!''\<rparr>)
     NewRecorder
     \<lparr>instance_id = ''a-missing-service-instance-id'',
      query = [''plan_id'' \<mapsto> ''some-plan-id'', ''service_id'' \<mapsto> ''some-service-id'']\<rparr> =
   \<lparr>writer = \<lparr>HeaderMap = [''Content-Type'' \<mapsto> [''application/json'']],
               Code = Some 410, Written = [JObject []]\<rparr>,
    calls = [\<lparr>instanceID = ''a-missing-service-instance-id'',
              serviceID = ''some-service-id'', planID = ''some-plan-id''\<rparr>],
    panicked = None\<rparr>"
proof -
  have p: "ParseDeprovision
             \<lparr>instance_id = ''a-missing-service-instance-id'',
              query = [''plan_id'' \<mapsto> ''some-plan-id'', ''service_id'' \<mapsto> ''some-service-id'']\<rparr> =
           Inr \<lparr>instanceID = ''a-missing-service-instance-id'',
                serviceID = ''some-service-id'', planID = ''some-plan-id''\<rparr>"
    by (simp add: ParseDeprovision_def)
  show ?thesis
    using deprovision_not_found_gone [where w = NewRecorder
        and e = "\<lparr>kind = NotFound, message = ''that instance does not exist!''\<rparr>"
        and deprovisioner = "\<lambda>r. Some \<lparr>kind = NotFound, message = ''that instance does not exist!''\<rparr>",
        OF p _ _ fresh_NewRecorder]
    by (simp add: NewRecorder_def)
qed

section \<open>A successful bind\<close>

text \<open>
  C6, as amended. When the binder succeeds and its credentials have a JSON encoding,
  the handler responds with status 201 and a JSON object in which the key
  \<open>credentials\<close> is present if and only if the credentials map is not empty, and the key
  \<open>syslog_drain_url\<close> if and only if the URL is not empty; with both empty the body is
  \<open>{}\<close>. The members present carry the encoded credentials and the URL, coerced to
  valid UTF-8.
\<close>

theorem bind_success_body:
  assumes "Parse req = Inr request"
    and "b request = (response, None)"
    and "Marshal (GoMap (Credentials response)) = Inr credentials"
    and "Code w = None" and "Written w = []"
  shows "let ms = (if Credentials response = [] then [] else [(''credentials'', credentials)])
                  @ (if SyslogDrainURL response = [] then []
                     else [(''syslog_drain_url'', JString (coerce_utf8 (SyslogDrainURL response)))])
         in ServeHTTP ServiceBindingAlreadyExistsError b w req =
              \<lparr>writer = w\<lparr>HeaderMap := (HeaderMap w)(''Content-Type'' \<mapsto> [''application/json'']),
                           Code := Some 201, Written := [JObject ms]\<rparr>,
               calls = [request], panicked = None\<rparr>
            \<and> (''credentials'' \<in> fst ` set ms \<longleftrightarrow> Credentials response \<noteq> [])
            \<and> (''syslog_drain_url'' \<in> fst ` set ms \<longleftrightarrow> SyslogDrainURL response \<noteq> [])
            \<and> (Credentials response = [] \<and> SyslogDrainURL response = [] \<longrightarrow> ms = [])"
proof -
  have "respond w StatusCreated
          (GoStruct [(''credentials'', True, GoMap (Credentials response)),
                     (''syslog_drain_url'', True, GoString (SyslogDrainURL response))]) =
        (w\<lparr>HeaderMap := (HeaderMap w)(''Content-Type'' \<mapsto> [''application/json'']),
           Code := Some 201,
           Written := [JObject ((if Credentials response = [] then []
                                 else [(''credentials'', credentials)])
                                @ (if SyslogDrainURL response = [] then []
                                   else [(''syslog_drain_url'', JString (coerce_utf8 (SyslogDrainURL response)))]))]\<rparr>,
         None)"
    unfolding respond_def Marshal_response [OF assms(3)]
    using assms(4,5) by (simp add: write_fresh StatusCreated_def)
  with assms(1,2) show ?thesis
    by (simp add: ServeHTTP_def returned_def Let_def)
qed

theorem bind_success_body_witness:
  "ServeHTTP (ErrorValue 7 ''already exists'')
     (Bind [(''password'', GoString ''pass''), (''port'', GoInt 3306)] [] None)
     NewRecorder (put_binding full_body) =
   \<lparr>writer = \<lparr>HeaderMap = [''Content-Type'' \<mapsto> [''application/json'']],
               Code = Some 201,
               Written = [JObject [(''credentials'',
                                    JObject [(''password'', JString ''pass''),
                                             (''port'', JNumber 3306)])]]\<rparr>,
    calls = [\<lparr>BindingID = ''binding-guid'', InstanceID = ''instance-guid'',
              ServiceID = ''my-service-id'', PlanID = ''my-plan-id'',
              AppGUID = ''my-app-guid''\<rparr>],
    panicked = None\<rparr>"
proof -
  have m: "Marshal (GoMap (Credentials
             \<lparr>Credentials = [(''password'', GoString ''pass''), (''port'', GoInt 3306)],
              SyslogDrainURL = []\<rparr>)) =
           Inr (JObject [(''password'', JString ''pass''), (''port'', JNumber 3306)])"
    by (simp add: utf8_simps)
  have c: "Bind [(''password'', GoString ''pass''), (''port'', GoInt 3306)] [] None
             \<lparr>BindingID = ''binding-guid'', InstanceID = ''instance-guid'',
              ServiceID = ''my-service-id'', PlanID = ''my-plan-id'',
              AppGUID = ''my-app-guid''\<rparr> =
           (\<lparr>Credentials = [(''password'', GoString ''pass''), (''port'', GoInt 3306)],
             SyslogDrainURL = []\<rparr>, None)"
    by (simp add: Bind_def)
  show ?thesis
    using bind_success_body [where w = NewRecorder
        and ServiceBindingAlreadyExistsError = "ErrorValue 7 ''already exists''"
        and b = "Bind [(''password'', GoString ''pass''), (''port'', GoInt 3306)] [] None",
        OF Parse_full_body c m fresh_NewRecorder]
    by (simp add: NewRecorder_def)
qed

text \<open>
  C6 as the claim states it fails: a binder that succeeds with credentials that hold a
  value \<open>Marshal\<close> cannot encode (here a channel) is invoked, and the handler panics in
  \<open>respond\<close> without a status or a body.
\<close>

theorem bind_success_body_counterexample:
  "calls (ServeHTTP (ErrorValue 7 ''already exists'') (Bind [(''conn'', GoChan)] [] None)
            NewRecorder (put_binding full_body)) =
     [\<lparr>BindingID = ''binding-guid'', InstanceID = ''instance-guid'',
       ServiceID = ''my-service-id'', PlanID = ''my-plan-id'', AppGUID = ''my-app-guid''\<rparr>]
   \<and> panicked (ServeHTTP (ErrorValue 7 ''already exists'') (Bind [(''conn'', GoChan)] [] None)
                 NewRecorder (put_binding full_body)) =
     Some (PanicJSON UnsupportedTypeError)
   \<and> Code (writer (ServeHTTP (ErrorValue 7 ''already exists'') (Bind [(''conn'', GoChan)] [] None)
                      NewRecorder (put_binding full_body))) = None
   \<and> Written (writer (ServeHTTP (ErrorValue 7 ''already exists'') (Bind [(''conn'', GoChan)] [] None)
                         NewRecorder (put_binding full_body))) = []"
  by (simp add: ServeHTTP_def Parse_full_body Bind_def returned_def respond_def NewRecorder_def)

text \<open>
  C7, as amended. When the body is a JSON object with the keys \<open>service_id\<close> and
  \<open>plan_id\<close> and no key that equals \<open>app_guid\<close> up to the case of its letters, and the
  binder succeeds with credentials that have a JSON encoding, the handler responds with
  status 201 and the binder has received a request whose \<open>AppGUID\<close> is empty.
\<close>

theorem app_guid_omitted:
  assumes "Body req = Reads (Document (JObject ms))"
    and "''service_id'' \<in> fst ` set ms" and "''plan_id'' \<in> fst ` set ms"
    and "\<forall>k \<in> fst ` set ms. \<not> equalFold ''app_guid'' k"
    and "Parse req = Inr request"
    and "b request = (response, None)"
    and "Marshal (GoMap (Credentials response)) = Inr credentials"
    and "Code w = None" and "Written w = []"
  shows "Code (writer (ServeHTTP ServiceBindingAlreadyExistsError b w req)) = Some 201
         \<and> panicked (ServeHTTP ServiceBindingAlreadyExistsError b w req) = None
         \<and> calls (ServeHTTP ServiceBindingAlreadyExistsError b w req) = [request]
         \<and> AppGUID request = []"
proof -
  have "AppGUID request = []"
    using Parse_AppGUID [OF assms(1) assms(4) assms(5)] .
  moreover have "snd (respond w StatusCreated
          (GoStruct [(''credentials'', True, GoMap (Credentials response)),
                     (''syslog_drain_url'', True, GoString (SyslogDrainURL response))])) = None"
    and "Code (fst (respond w StatusCreated
          (GoStruct [(''credentials'', True, GoMap (Credentials response)),
                     (''syslog_drain_url'', True, GoString (SyslogDrainURL response))]))) = Some 201"
    unfolding respond_def Marshal_response [OF assms(7)]
    using assms(8,9) by (simp_all add: write_fresh StatusCreated_def)
  ultimately show ?thesis
    using assms(5,6) by (simp add: ServeHTTP_def returned_def)
qed

theorem app_guid_omitted_witness:
  "Code (writer (ServeHTTP (ErrorValue 7 ''already exists'') (Bind [] [] None) NewRecorder
                   (put_binding keyless_body))) = Some 201
   \<and> calls (ServeHTTP (ErrorValue 7 ''already exists'') (Bind [] [] None) NewRecorder
              (put_binding keyless_body)) =
       [\<lparr>BindingID = ''binding-guid'', InstanceID = ''instance-guid'',
         ServiceID = ''service-id'', PlanID = ''plan-id'', AppGUID = []\<rparr>]"
proof -
  have body: "Body (put_binding keyless_body) = Reads (Document (JObject keyless_body))"
    by (simp add: put_binding_def)
  have s: "''service_id'' \<in> fst ` set keyless_body"
    and p: "''plan_id'' \<in> fst ` set keyless_body"
    by (simp_all add: keyless_body_def)
  have k: "\<forall>k \<in> fst ` set keyless_body. \<not> equalFold ''app_guid'' k"
    by (simp add: keyless_body_def fold_simps)
  have c: "Bind [] [] None
             \<lparr>BindingID = ''binding-guid'', InstanceID = ''instance-guid'',
              ServiceID = ''service-id'', PlanID = ''plan-id'', AppGUID = []\<rparr> =
           (\<lparr>Credentials = [], SyslogDrainURL = []\<rparr>, None)"
    by (simp add: Bind_def)
  have m: "Marshal (GoMap (Credentials \<lparr>Credentials = [], SyslogDrainURL = []\<rparr>)) =
           Inr (JObject [])"
    by simp
  show ?thesis
    using app_guid_omitted [where w = NewRecorder
        and ServiceBindingAlreadyExistsError = "ErrorValue 7 ''already exists''"
        and b = "Bind [] [] None", OF body s p k Parse_keyless_body c m fresh_NewRecorder]
    by simp
qed

text \<open>
  C7 as the claim states it fails twice. A body with \<open>service_id\<close>, \<open>plan_id\<close> and the key
  \<open>APP_GUID\<close> has no key \<open>app_guid\<close>, yet \<open>Unmarshal\<close> stores its value and the binder
  receives it as \<open>AppGUID\<close>. And a binder that succeeds with credentials \<open>Marshal\<close>
  cannot encode is invoked, but no status is written.
\<close>

theorem app_guid_omitted_counterexample:
  "calls (ServeHTTP (ErrorValue 7 ''already exists'') (Bind [] [] None) NewRecorder
            (put_binding (keyless_body @ [(''APP_GUID'', JString ''app-guid'')]))) =
     [\<lparr>BindingID = ''binding-guid'', InstanceID = ''instance-guid'',
       ServiceID = ''service-id'', PlanID = ''plan-id'', AppGUID = ''app-guid''\<rparr>]
   \<and> ''app_guid'' \<notin> fst ` set (keyless_body @ [(''APP_GUID'', JString ''app-guid'')])
   \<and> calls (ServeHTTP (ErrorValue 7 ''already exists'') (Bind [(''conn'', GoChan)] [] None)
              NewRecorder (put_binding keyless_body)) =
     [\<lparr>BindingID = ''binding-guid'', InstanceID = ''instance-guid'',
       ServiceID = ''service-id'', PlanID = ''plan-id'', AppGUID = []\<rparr>]
   \<and> Code (writer (ServeHTTP (ErrorValue 7 ''already exists'') (Bind [(''conn'', GoChan)] [] None)
                      NewRecorder (put_binding keyless_body))) = None"
  by (simp add: ServeHTTP_def Parse_upper_case_key Parse_keyless_body
        Bind_def returned_def respond_def NewRecorder_def)
    (simp add: keyless_body_def)

section \<open>The response writer\<close>

text \<open>
  C8. Every response is written by \<open>respond\<close>. On a writer nothing was written to, a
  call of \<open>respond\<close> that returns has set the header \<open>Content-Type\<close> to
  \<open>application/json\<close>, written the status and written one body, the JSON encoding of the
  value; for \<open>EmptyJSON\<close> the body is \<open>{}\<close>, with every status. Whenever the Bind handler
  has written a status, the header is set and the body is one JSON object (so not
  \<open>null\<close> and not left out), and the status is 201, 409 or 500.
\<close>

theorem every_response_is_json:
  assumes "Code w = None" and "Written w = []"
  shows "(\<forall>code v. snd (respond w code v) = None \<longrightarrow>
            (\<exists>doc. Marshal v = Inr doc \<and>
               fst (respond w code v) =
                 w\<lparr>HeaderMap := (HeaderMap w)(''Content-Type'' \<mapsto> [''application/json'']),
                   Code := Some code, Written := [doc]\<rparr>))
         \<and> (\<forall>code. respond w code EmptyJSON =
               (w\<lparr>HeaderMap := (HeaderMap w)(''Content-Type'' \<mapsto> [''application/json'']),
                  Code := Some code, Written := [JObject []]\<rparr>, None))
         \<and> (\<forall>already_exists b req code.
               Code (writer (ServeHTTP already_exists b w req)) = Some code \<longrightarrow>
                 HeaderMap (writer (ServeHTTP already_exists b w req)) ''Content-Type'' =
                   Some [''application/json'']
                 \<and> (\<exists>ms. Written (writer (ServeHTTP already_exists b w req)) = [JObject ms])
                 \<and> code \<in> {StatusCreated, StatusConflict, StatusInternalServerError})"
  using assms respond_returns ServeHTTP_written
  by (simp add: respond_EmptyJSON write_fresh)

theorem every_response_is_json_witness:
  "respond NewRecorder 410 EmptyJSON =
     (\<lparr>HeaderMap = [''Content-Type'' \<mapsto> [''application/json'']],
       Code = Some 410, Written = [JObject []]\<rparr>, None)
   \<and> fst (respond NewRecorder 400 (Failure ''invalid JSON'')) =
     \<lparr>HeaderMap = [''Content-Type'' \<mapsto> [''application/json'']],
      Code = Some 400, Written = [JObject [(''description'', JString ''invalid JSON'')]]\<rparr>
   \<and> HeaderMap (writer (ServeHTTP (ErrorValue 7 ''already exists'')
                          (Bind [] [] (Some (ErrorValue 3 ''BANG!'')))
                          NewRecorder (put_binding full_body))) ''Content-Type'' =
     Some [''application/json'']"
proof -
  note all = every_response_is_json [OF fresh_NewRecorder]
  have r: "snd (respond NewRecorder 400 (Failure ''invalid JSON'')) = None"
    by (simp add: respond_Failure)
  have c: "Code (writer (ServeHTTP (ErrorValue 7 ''already exists'')
                           (Bind [] [] (Some (ErrorValue 3 ''BANG!'')))
                           NewRecorder (put_binding full_body))) = Some 500"
    by (simp add: ServeHTTP_def Parse_full_body Bind_def returned_def respond_Failure
          write_fresh fresh_NewRecorder StatusInternalServerError_def)
  from all r
  have "\<exists>doc. Marshal (Failure ''invalid JSON'') = Inr doc \<and>
          fst (respond NewRecorder 400 (Failure ''invalid JSON'')) =
            NewRecorder\<lparr>HeaderMap := (HeaderMap NewRecorder)(''Content-Type'' \<mapsto> [''application/json'']),
                        Code := Some 400, Written := [doc]\<rparr>"
    by blast
  moreover from all
  have "respond NewRecorder 410 EmptyJSON =
          (NewRecorder\<lparr>HeaderMap := (HeaderMap NewRecorder)(''Content-Type'' \<mapsto> [''application/json'']),
                      Code := Some 410, Written := [JObject []]\<rparr>, None)"
    by blast
  moreover from all c
  have "HeaderMap (writer (ServeHTTP (ErrorValue 7 ''already exists'')
                             (Bind [] [] (Some (ErrorValue 3 ''BANG!'')))
                             NewRecorder (put_binding full_body))) ''Content-Type'' =
          Some [''application/json'']"
    by blast
  ultimately show ?thesis
    by (auto simp: NewRecorder_def Failure_def utf8_simps)
qed

text \<open>
  C9. If \<open>Marshal\<close> fails on the value, \<open>respond\<close> panics with the error and leaves the
  writer as it was: no header, no status, no body. If \<open>Marshal\<close> succeeds, \<open>respond\<close>
  does not panic.
\<close>

theorem marshal_failure_is_fatal:
  "(Marshal v = Inl e \<longrightarrow> respond w code v = (w, Some (PanicJSON e)))
   \<and> (Marshal v = Inr doc \<longrightarrow> snd (respond w code v) = None)"
  by (simp add: respond_def)

theorem marshal_failure_is_fatal_witness:
  "respond NewRecorder 201 (GoStruct [(''credentials'', True, GoMap [(''conn'', GoChan)])]) =
     (NewRecorder, Some (PanicJSON UnsupportedTypeError))
   \<and> snd (respond NewRecorder 409 EmptyJSON) = None"
  using marshal_failure_is_fatal [where v = "GoStruct [(''credentials'', True, GoMap [(''conn'', GoChan)])]"
      and e = UnsupportedTypeError and w = NewRecorder and code = 201]
    marshal_failure_is_fatal [where v = EmptyJSON and w = NewRecorder and code = 409
      and doc = "JObject []"]
  by (simp add: EmptyJSON_def)

section \<open>Error responses and the credentials\<close>

text \<open>
  C10. Two binders that return the same error on the request the handler passes them
  give the same run of the handler, whatever credentials and syslog drain URL each
  returns beside the error: the same writer, the same call and the same end.
\<close>

theorem error_response_hides_credentials:
  assumes "\<forall>request. Parse req = Inr request \<longrightarrow>
             snd (b1 request) = Some E \<and> snd (b2 request) = Some E"
  shows "ServeHTTP ServiceBindingAlreadyExistsError b1 w req =
         ServeHTTP ServiceBindingAlreadyExistsError b2 w req"
proof (cases "Parse req")
  case (Inl p)
  then show ?thesis by (simp add: ServeHTTP_def)
next
  case (Inr request)
  with assms obtain r1 r2 where "b1 request = (r1, Some E)" and "b2 request = (r2, Some E)"
    by (metis prod.collapse)
  with Inr show ?thesis by (simp add: ServeHTTP_def)
qed

theorem error_response_hides_credentials_witness:
  "ServeHTTP (ErrorValue 7 ''already exists'')
     (Bind [(''password'', GoString ''pass'')] ''syslog://something''
        (Some (ErrorValue 3 ''BANG!'')))
     NewRecorder (put_binding full_body) =
   ServeHTTP (ErrorValue 7 ''already exists'')
     (Bind [(''password'', GoString ''secret''), (''conn'', GoChan)] []
        (Some (ErrorValue 3 ''BANG!'')))
     NewRecorder (put_binding full_body)"
  using error_response_hides_credentials [where E = "ErrorValue 3 ''BANG!''"
      and req = "put_binding full_body"
      and ?b1.0 = "Bind [(''password'', GoString ''pass'')] ''syslog://something''
                     (Some (ErrorValue 3 ''BANG!''))"
      and ?b2.0 = "Bind [(''password'', GoString ''secret''), (''conn'', GoChan)] []
                     (Some (ErrorValue 3 ''BANG!''))"]
  by (simp add: Bind_def)

end
